theory Spec2Isabelle
  imports Main
begin

section \<open>Projector: a shallow embedding of server.py\<close>

text \<open>
  The program is a small HTTP control server around one external capture process.
  Everything it does goes through the operating system or the Python library, so the
  embedding makes three things explicit:
  \<^item> the global \<open>_ffmpeg_proc\<close> is a value of type \<open>nat option\<close> (the process id of the
    running capture process, or \<open>None\<close>) passed to and returned by every operation;
  \<^item> what the outside world answers (does a file open, did the process exit at the
    i-th poll, ...) is read from a record \<open>world\<close>; pure library functions whose
    code is not part of the repository (\<open>json.loads\<close>, \<open>json.dumps\<close>, \<open>int\<close>, ...)
    are fields of a record \<open>lib\<close>;
  \<^item> every effect on processes and on the file system is written to a list of
    \<open>event\<close>s returned next to the result, and an exception that leaves a function
    is the \<open>Inl\<close> of its result.
  Python text and bytes are both modelled as \<open>string\<close>, a list of bytes (UTF-8).
\<close>

subsection \<open>Data\<close>

datatype exn =
    FileNotFoundError
  | IsADirectoryError
  | PermissionError
  | OtherOSError
  | JSONDecodeError
  | UnicodeDecodeError
  | ValueError
  | AttributeError
  | TimeoutExpired

text \<open>The values \<open>json.loads\<close> produces and \<open>json.dumps\<close> consumes. A Python dict
  is an association list with distinct keys, read with \<open>map_of\<close>; the payload of a
  float is its literal and is never interpreted.\<close>

datatype json =
    JNull
  | JBool bool
  | JInt int
  | JFloat string
  | JStr string
  | JArr "json list"
  | JObj "(string \<times> json) list"

datatype event =
    PathExists string
  | Rmtree string
  | Makedirs string
  | OpenFile string
  | Popen "string list"
  | RunCommand "string list"
  | Sleep nat
  | Poll nat
  | ReadStderr nat
  | Terminate nat
  | Communicate nat nat
  | Kill nat
  | Wait nat nat
  | Print string

text \<open>An event records a call, also when the call then raises: \<open>Popen argv\<close> is
  the call of \<open>subprocess.Popen\<close> with that argument vector. Durations are in
  milliseconds: \<open>time.sleep(0.25)\<close> is \<open>Sleep 250\<close>, \<open>communicate(timeout=3)\<close> of
  process \<open>p\<close> is \<open>Communicate p 3000\<close>.\<close>

record world =
  hls_dir_present :: bool
  rmtree_error :: "exn option"
  makedirs_error :: "exn option"
  popen_result :: "exn + nat"
  poll_exited :: "nat \<Rightarrow> bool"
  manifest_present :: "nat \<Rightarrow> bool"
  stderr_text :: string
  communicate_result :: "exn + string"
  wait_error :: "exn option"
  sock_result :: "exn + string"
  open_result :: "string \<Rightarrow> exn + string"
  devices_result :: "exn + string"

text \<open>
  \<open>hls_dir_present\<close>: the answer of \<open>os.path.exists(HLS_DIR)\<close> in \<open>prepare_hls_dir\<close>;
  \<open>rmtree_error\<close>, \<open>makedirs_error\<close>: the exception of \<open>shutil.rmtree\<close> and of
  \<open>os.makedirs\<close>, if any; \<open>popen_result\<close>: the exception of \<open>subprocess.Popen\<close>
  (the executable is missing, say) or the id of the new process;
  \<open>poll_exited w i\<close>: at iteration \<open>i\<close> (from 0) of the wait loop \<open>poll()\<close> is not
  \<open>None\<close>; \<open>manifest_present w i\<close>: at iteration \<open>i\<close> the manifest exists;
  \<open>stderr_text\<close>: the decoded text read from the process's error stream;
  \<open>communicate_result\<close>: the exception of \<open>communicate(timeout=3)\<close> or the decoded
  error output; \<open>wait_error\<close>: the exception of \<open>wait(timeout=2)\<close>, if any;
  \<open>sock_result\<close>: the exception of the socket calls of \<open>get_local_ip\<close> or the local
  address; \<open>open_result w path\<close>: the exception of \<open>open(path, "rb")\<close> or the bytes
  read; \<open>devices_result\<close>: the exception of \<open>subprocess.run\<close> in \<open>list_screens\<close> or
  the error output of the device listing.
\<close>

record lib =
  json_loads :: "string \<Rightarrow> exn + json"
  json_dumps :: "json \<Rightarrow> string"
  int_of_text :: "string \<Rightarrow> int option"
  format_value :: "json \<Rightarrow> string"
  splitlines :: "string \<Rightarrow> string list"
  search_capture_screen :: "string \<Rightarrow> (string \<times> string) option"
  version_string :: string
  date_time_string :: string
  error_page :: "nat \<Rightarrow> string"
  static_dir :: string

text \<open>
  \<open>json_loads\<close>: \<open>json.loads\<close> on bytes (\<open>Inl JSONDecodeError\<close>, \<open>Inl UnicodeDecodeError\<close>
  or the value); \<open>json_dumps\<close>: \<open>json.dumps(data).encode()\<close>; \<open>int_of_text\<close>: \<open>int\<close> on a
  header value (\<open>None\<close> is \<open>ValueError\<close>); \<open>format_value\<close>: the text an f-string gives
  a value that is not a \<open>str\<close>; \<open>splitlines\<close>: \<open>str.splitlines\<close>;
  \<open>search_capture_screen\<close>: the two groups of
  \<open>re.search(r"\[(\d+)\] Capture screen (\d+)", line)\<close>;
  \<open>version_string\<close>, \<open>date_time_string\<close>: the values of the Server and Date headers
  that \<open>send_response\<close> adds; \<open>error_page\<close>: the HTML body \<open>send_error\<close> builds for a
  status code; \<open>static_dir\<close>: \<open>STATIC_DIR\<close>, the directory of the script.
\<close>

subsection \<open>Constants and text helpers\<close>

definition CONTROL_PORT :: int where
  "CONTROL_PORT = 8000"

definition HLS_DIR :: string where
  "HLS_DIR = ''/tmp/projector-stream''"

definition digit_char :: "nat \<Rightarrow> char" where
  "digit_char d = ''0123456789'' ! d"

function str_nat :: "nat \<Rightarrow> string" where
  "str_nat n = (if n < 10 then [digit_char n] else str_nat (n div 10) @ [digit_char (n mod 10)])"
  by pat_completeness auto
termination
  by (relation "measure (\<lambda>n. n)") auto

declare str_nat.simps [simp del]

text \<open>\<open>str\<close> of a Python integer.\<close>

definition str_int :: "int \<Rightarrow> string" where
  "str_int i = (if i < 0 then CHR ''-'' # str_nat (nat (- i)) else str_nat (nat i))"

text \<open>\<open>os.path.join\<close> of two components (posixpath).\<close>

definition path_join :: "string \<Rightarrow> string \<Rightarrow> string" where
  "path_join a b =
     (if b \<noteq> [] \<and> hd b = CHR ''/'' then b
      else if a = [] \<or> last a = CHR ''/'' then a @ b
      else a @ ''/'' @ b)"

text \<open>The value of \<open>f"{source_id}:none"\<close>'s first field: a \<open>str\<close> is inserted as it is.\<close>

definition format_field :: "lib \<Rightarrow> json \<Rightarrow> string" where
  "format_field l v = (case v of JStr s \<Rightarrow> s | _ \<Rightarrow> format_value l v)"

text \<open>The em dash of the two failure messages, in UTF-8.\<close>

definition em_dash :: string where
  "em_dash = [CHR 0xE2, CHR 0x80, CHR 0x94]"

definition msg_permission :: string where
  "msg_permission =
     ''Failed '' @ em_dash @ '' grant Screen Recording permission to your terminal in System Settings.''"

definition msg_no_segments :: string where
  "msg_no_segments =
     ''No segments generated '' @ em_dash @ '' check screen recording permissions in System Settings.''"

text \<open>
  \<open>s[-500:]\<close> on decoded text: the last 500 characters. The text is held as UTF-8, where
  a character is one byte that is not a continuation byte (\<open>0x80\<close> to \<open>0xBF\<close>) followed
  by its continuation bytes.
\<close>

definition continuation_byte :: "char \<Rightarrow> bool" where
  "continuation_byte c = (128 \<le> (of_char c :: nat) \<and> (of_char c :: nat) < 192)"

definition char_count :: "string \<Rightarrow> nat" where
  "char_count s = length (filter (\<lambda>c. \<not> continuation_byte c) s)"

fun drop_chars :: "nat \<Rightarrow> string \<Rightarrow> string" where
  "drop_chars 0 s = s"
| "drop_chars (Suc n) [] = []"
| "drop_chars (Suc n) (c # cs) = drop_chars n (dropWhile continuation_byte cs)"

definition tail500 :: "string \<Rightarrow> string" where
  "tail500 s = drop_chars (char_count s - 500) s"

subsection \<open>Process supervisor\<close>

definition prepare_hls_dir :: "world \<Rightarrow> exn option \<times> event list" where
  "prepare_hls_dir w =
     (if hls_dir_present w then
        (case rmtree_error w of
           Some e \<Rightarrow> (Some e, [PathExists HLS_DIR, Rmtree HLS_DIR])
         | None \<Rightarrow> (makedirs_error w, [PathExists HLS_DIR, Rmtree HLS_DIR, Makedirs HLS_DIR]))
      else (makedirs_error w, [PathExists HLS_DIR, Makedirs HLS_DIR]))"

text \<open>The argument vector of the capture process.\<close>

definition ffmpeg_cmd :: "lib \<Rightarrow> json \<Rightarrow> int \<Rightarrow> string list" where
  "ffmpeg_cmd l source_id framerate =
     [''ffmpeg'',
      ''-f'', ''avfoundation'',
      ''-framerate'', str_int framerate,
      ''-capture_cursor'', ''1'',
      ''-i'', format_field l source_id @ '':none'',
      ''-enc_time_base'', ''1/'' @ str_int framerate,
      ''-c:v'', ''h264_videotoolbox'',
      ''-b:v'', ''3M'',
      ''-g'', str_int framerate,
      ''-f'', ''hls'',
      ''-hls_time'', ''1'',
      ''-hls_list_size'', ''3'',
      ''-hls_flags'', ''delete_segments+independent_segments'',
      ''-hls_segment_filename'', path_join HLS_DIR ''seg%03d.ts'',
      path_join HLS_DIR ''stream.m3u8'']"

text \<open>
  The loop \<open>for _ in range(40)\<close>: \<open>i\<close> is the iteration, \<open>n\<close> the iterations left.
  The result is \<open>None\<close> when the loop ends without a \<open>return\<close>; otherwise the returned
  pair and the value of \<open>_ffmpeg_proc\<close> at that point.
\<close>

fun wait_first_segment ::
  "world \<Rightarrow> nat \<Rightarrow> nat \<Rightarrow> nat \<Rightarrow> ((bool \<times> string) \<times> nat option) option \<times> event list" where
  "wait_first_segment w p i 0 = (None, [])"
| "wait_first_segment w p i (Suc n) =
     (if poll_exited w i then
        (Some ((False, msg_permission), None),
         [Sleep 250, Poll p, ReadStderr p,
          Print (''ffmpeg exited early. stderr:'' @ [CHR 0x0A] @ tail500 (stderr_text w))])
      else if manifest_present w i then
        (Some ((True, ''Started''), Some p),
         [Sleep 250, Poll p, PathExists (path_join HLS_DIR ''stream.m3u8'')])
      else
        (case wait_first_segment w p (Suc i) n of
           (r, evs) \<Rightarrow>
             (r, [Sleep 250, Poll p, PathExists (path_join HLS_DIR ''stream.m3u8'')] @ evs)))"

text \<open>The code after the loop: terminate, collect the error output, report.\<close>

definition give_up :: "world \<Rightarrow> nat \<Rightarrow> event list" where
  "give_up w p =
     (case communicate_result w of
        Inr out \<Rightarrow>
          [Terminate p, Communicate p 3000,
           Print (''ffmpeg produced no segments. stderr:'' @ [CHR 0x0A] @ tail500 out)]
      | Inl e \<Rightarrow>
          [Terminate p, Communicate p 3000, Kill p,
           Print (''ffmpeg produced no segments. stderr:'' @ [CHR 0x0A])])"

definition start_stream ::
  "lib \<Rightarrow> world \<Rightarrow> json \<Rightarrow> int \<Rightarrow> nat option \<Rightarrow> (exn + bool \<times> string) \<times> nat option \<times> event list" where
  "start_stream l w source_id framerate h =
     (case h of
        Some p \<Rightarrow> (Inr (True, ''Already running''), h, [])
      | None \<Rightarrow>
          (case prepare_hls_dir w of
             (Some e, evs) \<Rightarrow> (Inl e, None, evs)
           | (None, evs) \<Rightarrow>
               (case popen_result w of
                  Inl e \<Rightarrow> (Inl e, None, evs @ [Popen (ffmpeg_cmd l source_id framerate)])
                | Inr p \<Rightarrow>
                    (case wait_first_segment w p 0 40 of
                       (Some (r, h'), evs') \<Rightarrow>
                         (Inr r, h', evs @ [Popen (ffmpeg_cmd l source_id framerate)] @ evs')
                     | (None, evs') \<Rightarrow>
                         (Inr (False, msg_no_segments), None,
                          evs @ [Popen (ffmpeg_cmd l source_id framerate)] @ evs' @ give_up w p)))))"

text \<open>\<open>wait(timeout=2)\<close> may raise; \<open>except Exception: pass\<close> swallows it.\<close>

definition stop_stream :: "world \<Rightarrow> nat option \<Rightarrow> nat option \<times> event list" where
  "stop_stream w h =
     (case h of
        Some p \<Rightarrow>
          (case wait_error w of
             None \<Rightarrow> (None, [Kill p, Wait p 2000])
           | Some e \<Rightarrow> (None, [Kill p, Wait p 2000]))
      | None \<Rightarrow> (None, []))"

subsection \<open>HTTP responses\<close>

record response =
  status :: nat
  headers :: "(string \<times> string) list"
  body :: string

text \<open>
  \<open>send_response\<close> and \<open>send_error\<close> are methods of the standard library's
  \<open>BaseHTTPRequestHandler\<close>: the first adds the Server and Date headers, the second
  sends the status with \<open>Connection: close\<close> and, for the codes that carry a body, an
  HTML page with its type and length.
\<close>

definition send_response :: "lib \<Rightarrow> (string \<times> string) list" where
  "send_response l = [(''Server'', version_string l), (''Date'', date_time_string l)]"

definition send_error :: "lib \<Rightarrow> nat \<Rightarrow> response" where
  "send_error l code =
     (if code \<ge> 200 \<and> code \<noteq> 204 \<and> code \<noteq> 205 \<and> code \<noteq> 304 then
        \<lparr>status = code,
         headers = send_response l @
           [(''Connection'', ''close''),
            (''Content-Type'', ''text/html;charset=utf-8''),
            (''Content-Length'', str_nat (length (error_page l code)))],
         body = error_page l code\<rparr>
      else
        \<lparr>status = code,
         headers = send_response l @ [(''Connection'', ''close'')],
         body = []\<rparr>)"

definition serve_file ::
  "lib \<Rightarrow> world \<Rightarrow> string \<Rightarrow> string \<Rightarrow> bool \<Rightarrow> (exn + response) \<times> event list" where
  "serve_file l w filepath content_type cache =
     (case open_result w filepath of
        Inr content \<Rightarrow>
          (Inr \<lparr>status = 200,
                headers = send_response l @
                  [(''Content-Type'', content_type),
                   (''Content-Length'', str_nat (length content)),
                   (''Cache-Control'',
                      if cache then ''max-age=60'' else ''no-cache, no-store, must-revalidate''),
                   (''Access-Control-Allow-Origin'', ''*'')],
                body = content\<rparr>,
           [OpenFile filepath])
      | Inl e \<Rightarrow>
          (if e = FileNotFoundError then (Inr (send_error l 404), [OpenFile filepath])
           else (Inl e, [OpenFile filepath])))"

definition send_json :: "lib \<Rightarrow> json \<Rightarrow> response" where
  "send_json l data =
     \<lparr>status = 200,
      headers = send_response l @
        [(''Content-Type'', ''application/json''),
         (''Content-Length'', str_nat (length (json_dumps l data)))],
      body = json_dumps l data\<rparr>"

subsection \<open>Status and sources\<close>

definition get_local_ip :: "world \<Rightarrow> string" where
  "get_local_ip w = (case sock_result w of Inr ip \<Rightarrow> ip | Inl e \<Rightarrow> ''127.0.0.1'')"

definition list_devices_cmd :: "string list" where
  "list_devices_cmd =
     [''ffmpeg'', ''-hide_banner'', ''-f'', ''avfoundation'', ''-list_devices'', ''true'', ''-i'', []]"

definition screen_entry :: "lib \<Rightarrow> string \<Rightarrow> json option" where
  "screen_entry l line =
     (case search_capture_screen l line of
        None \<Rightarrow> None
      | Some (g1, g2) \<Rightarrow>
          Some (JObj [(''id'', JStr g1), (''name'', JStr (''Screen '' @ g2)), (''type'', JStr ''screen'')]))"

definition list_screens :: "lib \<Rightarrow> world \<Rightarrow> (exn + json) \<times> event list" where
  "list_screens l w =
     (case devices_result w of
        Inl e \<Rightarrow> (Inl e, [RunCommand list_devices_cmd])
      | Inr err \<Rightarrow>
          (Inr (JArr (List.map_filter (screen_entry l) (splitlines l err))),
           [RunCommand list_devices_cmd]))"

subsection \<open>Request handler\<close>

definition MIME_TYPES :: "(string \<times> string) list" where
  "MIME_TYPES =
     [(''.html'', ''text/html''),
      (''.m3u8'', ''application/vnd.apple.mpegurl''),
      (''.ts'', ''video/mp2t''),
      (''.js'', ''application/javascript'')]"

definition mime_type :: "string \<Rightarrow> string" where
  "mime_type ext = (case map_of MIME_TYPES ext of Some t \<Rightarrow> t | None \<Rightarrow> ''application/octet-stream'')"

text \<open>\<open>s.startswith(p)\<close> and \<open>sub in s\<close>.\<close>

definition startswith :: "string \<Rightarrow> string \<Rightarrow> bool" where
  "startswith s p = (take (length p) s = p)"

fun contains :: "string \<Rightarrow> string \<Rightarrow> bool" where
  "contains sub [] = (sub = [])"
| "contains sub (c # cs) = (startswith (c # cs) sub \<or> contains sub cs)"

text \<open>\<open>str.rfind\<close> of one character (\<open>-1\<close> when absent) and \<open>os.path.splitext\<close>
  (posixpath): the extension starts at the last dot of the last component, unless only
  dots precede it there.\<close>

definition rfind :: "string \<Rightarrow> char \<Rightarrow> int" where
  "rfind s c =
     (if c \<in> set s then int (length s) - 1 - int (length (takeWhile (\<lambda>x. x \<noteq> c) (rev s)))
      else - 1)"

definition splitext :: "string \<Rightarrow> string \<times> string" where
  "splitext p =
     (let sepIndex = rfind p CHR ''/'';
          dotIndex = rfind p CHR ''.''
      in if dotIndex > sepIndex \<and>
            list_ex (\<lambda>k. p ! k \<noteq> CHR ''.'') [nat (sepIndex + 1) ..< nat dotIndex]
         then (take (nat dotIndex) p, drop (nat dotIndex) p)
         else (p, []))"

definition placeholder_page :: string where
  "placeholder_page =
     ''<html><body style='' @ [CHR 0x27] @
     ''font-family:sans-serif;display:flex;align-items:center;justify-content:center;height:100vh;margin:0;background:#0a0a0a;color:#888'' @
     [CHR 0x27] @
     ''><p>Screen sharing is not active yet. Ask the presenter to start sharing.</p></body></html>''"

definition viewer_url :: "string \<Rightarrow> string" where
  "viewer_url ip = ''http://'' @ ip @ '':'' @ str_int CONTROL_PORT"

definition do_GET :: "lib \<Rightarrow> world \<Rightarrow> nat option \<Rightarrow> string \<Rightarrow> (exn + response) \<times> event list" where
  "do_GET l w h path =
     (if path = ''/project'' then
        serve_file l w (path_join (static_dir l) ''control.html'') ''text/html'' False
      else if path = ''/'' \<or> path = ''/index.html'' then
        (if h \<noteq> None then
           serve_file l w (path_join (static_dir l) ''viewer.html'') ''text/html'' False
         else
           (Inr \<lparr>status = 200,
                 headers = send_response l @
                   [(''Content-Type'', ''text/html''),
                    (''Content-Length'', str_nat (length placeholder_page))],
                 body = placeholder_page\<rparr>,
            []))
      else if startswith path ''/hls/'' then
        (let filename = drop 5 path in
         if contains ''..'' filename \<or> contains ''/'' filename then (Inr (send_error l 403), [])
         else
           (let filepath = path_join HLS_DIR filename;
                ext = snd (splitext filename);
                content_type = mime_type ext
            in serve_file l w filepath content_type (ext = ''.ts'')))
      else if path = ''/api/status'' then
        (let ip = get_local_ip w in
         (Inr (send_json l (JObj
            [(''running'', JBool (h \<noteq> None)),
             (''ip'', JStr ip),
             (''viewer_url'', if h \<noteq> None then JStr (viewer_url ip) else JNull)])),
          []))
      else if path = ''/api/sources'' then
        (case list_screens l w of
           (Inl e, evs) \<Rightarrow> (Inl e, evs)
         | (Inr screens, evs) \<Rightarrow> (Inr (send_json l (JObj [(''screens'', screens)])), evs))
      else (Inr (send_error l 404), []))"

text \<open>
  A POST request: its path, the value of its Content-Length header if it has one, and
  the bytes the client sends after the headers. \<open>rfile.read(n)\<close> returns the first
  \<open>n\<close> of them, and all of them for a negative \<open>n\<close>.
\<close>

record request =
  req_path :: string
  content_length :: "string option"
  rfile :: string

definition rfile_read :: "request \<Rightarrow> int \<Rightarrow> string" where
  "rfile_read r n = (if n < 0 then rfile r else take (nat n) (rfile r))"

text \<open>\<open>int(self.headers.get("Content-Length", 0))\<close>; \<open>Inl ValueError\<close> when the header is
  not an integer.\<close>

definition read_content_len :: "lib \<Rightarrow> request \<Rightarrow> exn + int" where
  "read_content_len l r =
     (case content_length r of
        None \<Rightarrow> Inr 0
      | Some v \<Rightarrow> (case int_of_text l v of None \<Rightarrow> Inl ValueError | Some n \<Rightarrow> Inr n))"

text \<open>The \<open>try\<close> block around \<open>json.loads\<close>: only \<open>JSONDecodeError\<close> is caught.\<close>

definition parse_body :: "lib \<Rightarrow> string \<Rightarrow> exn + json" where
  "parse_body l b =
     (if b \<noteq> [] then
        (case json_loads l b of
           Inr v \<Rightarrow> Inr v
         | Inl e \<Rightarrow> (if e = JSONDecodeError then Inr (JObj []) else Inl e))
      else Inr (JObj []))"

text \<open>\<open>data.get("id", "3")\<close>: only a dict has the method.\<close>

definition get_id :: "json \<Rightarrow> exn + json" where
  "get_id data =
     (case data of
        JObj kvs \<Rightarrow> Inr (case map_of kvs ''id'' of Some v \<Rightarrow> v | None \<Rightarrow> JStr ''3'')
      | _ \<Rightarrow> Inl AttributeError)"

text \<open>The default of \<open>start_stream\<close>'s parameter \<open>framerate\<close>.\<close>

definition default_framerate :: int where
  "default_framerate = 30"

definition start_reply :: "lib \<Rightarrow> world \<Rightarrow> bool \<Rightarrow> string \<Rightarrow> response" where
  "start_reply l w ok msg =
     (let ip = get_local_ip w in
      send_json l (JObj
        [(''ok'', JBool ok),
         (''message'', JStr msg),
         (''url'', if ok then JStr (viewer_url ip) else JNull),
         (''ip'', JStr ip)]))"

text \<open>The value of \<open>data\<close> in \<open>do_POST\<close>, or the exception raised before it is bound.\<close>

definition request_data :: "lib \<Rightarrow> request \<Rightarrow> exn + json" where
  "request_data l r =
     (case read_content_len l r of
        Inl e \<Rightarrow> Inl e
      | Inr content_len \<Rightarrow>
          parse_body l (if content_len \<noteq> 0 then rfile_read r content_len else []))"

definition do_POST ::
  "lib \<Rightarrow> world \<Rightarrow> nat option \<Rightarrow> request \<Rightarrow> (exn + response) \<times> nat option \<times> event list" where
  "do_POST l w h r =
     (if req_path r = ''/api/start'' then
        (case request_data l r of
           Inl e \<Rightarrow> (Inl e, h, [])
         | Inr data \<Rightarrow>
             (case get_id data of
                Inl e \<Rightarrow> (Inl e, h, [])
              | Inr source_id \<Rightarrow>
                  (case start_stream l w source_id default_framerate h of
                     (Inl e, h', evs) \<Rightarrow> (Inl e, h', evs)
                   | (Inr (ok, msg), h', evs) \<Rightarrow> (Inr (start_reply l w ok msg), h', evs))))
      else if req_path r = ''/api/stop'' then
        (case stop_stream w h of
           (h', evs) \<Rightarrow>
             (Inr (send_json l (JObj [(''ok'', JBool True), (''message'', JStr ''Stopped'')])), h', evs))
      else (Inr (send_error l 404), h, []))"

subsection \<open>Observations on traces and responses\<close>

text \<open>The time slept and the number of polls in a list of effects; whether a response
  carries the header that permits cross-origin access.\<close>

fun slept :: "event list \<Rightarrow> nat" where
  "slept [] = 0"
| "slept (Sleep ms # evs) = ms + slept evs"
| "slept (e # evs) = slept evs"

fun polls :: "event list \<Rightarrow> nat" where
  "polls [] = 0"
| "polls (Poll p # evs) = Suc (polls evs)"
| "polls (e # evs) = polls evs"

definition allows_cross_origin :: "response \<Rightarrow> bool" where
  "allows_cross_origin r = ((''Access-Control-Allow-Origin'', ''*'') \<in> set (headers r))"

subsection \<open>Concrete library and worlds\<close>

text \<open>
  A library that agrees with Python on the few inputs used below
  (\<open>json.loads(b"[]") == []\<close>, \<open>json.loads(b"{}") == {}\<close>, \<open>int("2") == 2\<close>),
  whose \<open>json_dumps\<close> writes a value as \<open>json.dumps\<close> does when its strings are
  printable ASCII (a comma and a colon, each followed by a space, as separators; the
  double quote and the backslash escaped), with a placeholder for the error page, and
  worlds for the main scenarios: the manifest appears at the fourth poll; the
  process exits at the third poll; the process hangs without output; the executable
  cannot be launched; no file exists yet; the host has no route.
\<close>

definition quoted :: "string \<Rightarrow> string" where
  "quoted s = CHR 0x22 # s @ [CHR 0x22]"

fun escape_ascii :: "string \<Rightarrow> string" where
  "escape_ascii [] = []"
| "escape_ascii (c # cs) =
     (if c = CHR 0x22 \<or> c = CHR 0x5C then CHR 0x5C # c # escape_ascii cs
      else c # escape_ascii cs)"

fun example_dumps :: "json \<Rightarrow> string"
  and example_dumps_items :: "json list \<Rightarrow> string"
  and example_dumps_members :: "(string \<times> json) list \<Rightarrow> string" where
  "example_dumps JNull = ''null''"
| "example_dumps (JBool b) = (if b then ''true'' else ''false'')"
| "example_dumps (JInt i) = str_int i"
| "example_dumps (JFloat t) = t"
| "example_dumps (JStr t) = quoted (escape_ascii t)"
| "example_dumps (JArr vs) = ''['' @ example_dumps_items vs @ '']''"
| "example_dumps (JObj kvs) = ''{'' @ example_dumps_members kvs @ ''}''"
| "example_dumps_items [] = []"
| "example_dumps_items [v] = example_dumps v"
| "example_dumps_items (v # v' # vs) = example_dumps v @ '', '' @ example_dumps_items (v' # vs)"
| "example_dumps_members [] = []"
| "example_dumps_members [(k, v)] = quoted (escape_ascii k) @ '': '' @ example_dumps v"
| "example_dumps_members ((k, v) # kv # kvs) =
     quoted (escape_ascii k) @ '': '' @ example_dumps v @ '', '' @ example_dumps_members (kv # kvs)"

definition example_lib :: lib where
  "example_lib =
     \<lparr>json_loads = (\<lambda>b. if b = ''[]'' then Inr (JArr [])
                       else if b = ''{}'' then Inr (JObj [])
                       else Inl JSONDecodeError),
      json_dumps = example_dumps,
      int_of_text = (\<lambda>t. if t = ''2'' then Some 2 else None),
      format_value = (\<lambda>v. ''None''),
      splitlines = (\<lambda>t. [t]),
      search_capture_screen = (\<lambda>t. None),
      version_string = ''BaseHTTP/0.6 Python/3.12.0'',
      date_time_string = ''Thu, 01 Jan 2026 00:00:00 GMT'',
      error_page = (\<lambda>c. ''<html>error</html>''),
      static_dir = ''/srv/projector''\<rparr>"

definition world_ok :: world where
  "world_ok =
     \<lparr>hls_dir_present = False,
      rmtree_error = None,
      makedirs_error = None,
      popen_result = Inr 4242,
      poll_exited = (\<lambda>i. False),
      manifest_present = (\<lambda>i. 3 \<le> i),
      stderr_text = [],
      communicate_result = Inr [],
      wait_error = None,
      sock_result = Inr ''192.168.1.20'',
      open_result = (\<lambda>p. if p = ''/tmp/projector-stream/stream.m3u8'' then Inr ''#EXTM3U''
                        else if p = ''/tmp/projector-stream/'' then Inl IsADirectoryError
                        else Inl FileNotFoundError),
      devices_result = Inr []\<rparr>"

definition world_exit :: world where
  "world_exit = world_ok\<lparr>poll_exited := (\<lambda>i. i = 2), manifest_present := (\<lambda>i. False)\<rparr>"

definition world_hang :: world where
  "world_hang = world_ok\<lparr>manifest_present := (\<lambda>i. False)\<rparr>"

definition world_no_ffmpeg :: world where
  "world_no_ffmpeg = world_ok\<lparr>popen_result := Inl FileNotFoundError\<rparr>"

text \<open>Before the first start: the segment directory does not exist, no file opens.\<close>

definition world_fresh :: world where
  "world_fresh = world_ok\<lparr>open_result := (\<lambda>p. Inl FileNotFoundError)\<rparr>"

definition world_offline :: world where
  "world_offline = world_ok\<lparr>sock_result := Inl OtherOSError\<rparr>"

text \<open>A POST /api/start request that announces two bytes of body.\<close>

definition start_request :: "string \<Rightarrow> request" where
  "start_request b = \<lparr>req_path = ''/api/start'', content_length = Some ''2'', rfile = b\<rparr>"

subsection \<open>Auxiliary facts\<close>

lemma startswith_iff: "startswith s p \<longleftrightarrow> (\<exists>b. s = p @ b)"
proof
  assume "startswith s p"
  then have "s = p @ drop (length p) s"
    unfolding startswith_def by (metis append_take_drop_id)
  then show "\<exists>b. s = p @ b" ..
next
  assume "\<exists>b. s = p @ b"
  then show "startswith s p"
    unfolding startswith_def by auto
qed

lemma contains_iff: "contains sub s \<longleftrightarrow> (\<exists>a b. s = a @ sub @ b)"
proof (induction s)
  case Nil
  show ?case by simp
next
  case (Cons c cs)
  have "(\<exists>a b. c # cs = a @ sub @ b) \<longleftrightarrow>
        (\<exists>b. c # cs = sub @ b) \<or> (\<exists>a b. cs = a @ sub @ b)"
    by (auto simp: Cons_eq_append_conv)
  with Cons show ?case
    by (simp add: startswith_iff)
qed

lemma slept_append: "slept (xs @ ys) = slept xs + slept ys"
  by (induction xs rule: slept.induct) simp_all

lemma polls_append: "polls (xs @ ys) = polls xs + polls ys"
  by (induction xs rule: polls.induct) simp_all

lemma wait_outcomes:
  "fst (wait_first_segment w p i n) = None \<or>
   fst (wait_first_segment w p i n) = Some ((False, msg_permission), None) \<or>
   fst (wait_first_segment w p i n) = Some ((True, ''Started''), Some p)"
  by (induction n arbitrary: i) (simp_all add: case_prod_beta)

lemma wait_hang:
  "(\<forall>j<n. \<not> poll_exited w (i + j) \<and> \<not> manifest_present w (i + j)) \<Longrightarrow>
     fst (wait_first_segment w p i n) = None"
proof (induction n arbitrary: i)
  case 0
  show ?case by simp
next
  case (Suc n)
  from Suc.prems have here: "\<not> poll_exited w i" "\<not> manifest_present w i"
    by force+
  have "\<forall>j<n. \<not> poll_exited w (Suc i + j) \<and> \<not> manifest_present w (Suc i + j)"
    using Suc.prems by force
  then have "fst (wait_first_segment w p (Suc i) n) = None"
    by (rule Suc.IH)
  with here show ?case
    by (simp add: case_prod_beta)
qed

lemma wait_exit:
  "k < n \<Longrightarrow> poll_exited w (i + k) \<Longrightarrow>
   (\<forall>j<k. \<not> poll_exited w (i + j) \<and> \<not> manifest_present w (i + j)) \<Longrightarrow>
     fst (wait_first_segment w p i n) = Some ((False, msg_permission), None)"
proof (induction k arbitrary: i n)
  case 0
  then obtain n' where "n = Suc n'"
    by (cases n) auto
  with 0 show ?case by simp
next
  case (Suc k)
  then obtain n' where n: "n = Suc n'" and k: "k < n'"
    by (cases n) auto
  from Suc.prems(3) have here: "\<not> poll_exited w i" "\<not> manifest_present w i"
    by force+
  have later: "\<forall>j<k. \<not> poll_exited w (Suc i + j) \<and> \<not> manifest_present w (Suc i + j)"
    using Suc.prems(3) by force
  have "poll_exited w (Suc i + k)"
    using Suc.prems(2) by simp
  with k later have "fst (wait_first_segment w p (Suc i) n') = Some ((False, msg_permission), None)"
    by (intro Suc.IH)
  with here n show ?case
    by (simp add: case_prod_beta)
qed

lemma wait_started:
  "k < n \<Longrightarrow> \<not> poll_exited w (i + k) \<Longrightarrow> manifest_present w (i + k) \<Longrightarrow>
   (\<forall>j<k. \<not> poll_exited w (i + j) \<and> \<not> manifest_present w (i + j)) \<Longrightarrow>
     fst (wait_first_segment w p i n) = Some ((True, ''Started''), Some p)"
proof (induction k arbitrary: i n)
  case 0
  then obtain n' where "n = Suc n'"
    by (cases n) auto
  with 0 show ?case by simp
next
  case (Suc k)
  then obtain n' where n: "n = Suc n'" and k: "k < n'"
    by (cases n) auto
  from Suc.prems(4) have here: "\<not> poll_exited w i" "\<not> manifest_present w i"
    by force+
  have later: "\<forall>j<k. \<not> poll_exited w (Suc i + j) \<and> \<not> manifest_present w (Suc i + j)"
    using Suc.prems(4) by force
  have "\<not> poll_exited w (Suc i + k)" "manifest_present w (Suc i + k)"
    using Suc.prems(2,3) by simp_all
  with k later have "fst (wait_first_segment w p (Suc i) n') = Some ((True, ''Started''), Some p)"
    by (intro Suc.IH)
  with here n show ?case
    by (simp add: case_prod_beta)
qed

lemma wait_slept: "slept (snd (wait_first_segment w p i n)) \<le> 250 * n"
  by (induction n arbitrary: i) (simp_all add: case_prod_beta)

lemma wait_polls: "polls (snd (wait_first_segment w p i n)) \<le> n"
  by (induction n arbitrary: i) (simp_all add: case_prod_beta)

lemma give_up_terminates: "Terminate p \<in> set (give_up w p)"
  by (simp add: give_up_def split: sum.splits)

lemma messages_distinct: "msg_permission \<noteq> msg_no_segments"
  by (simp add: msg_permission_def msg_no_segments_def)

lemma start_stream_idle:
  "fst (prepare_hls_dir w) = None \<Longrightarrow> popen_result w = Inr p \<Longrightarrow>
     fst (start_stream l w source_id framerate None) =
       (case fst (wait_first_segment w p 0 40) of
          Some (r, h') \<Rightarrow> Inr r
        | None \<Rightarrow> Inr (False, msg_no_segments))
     \<and> fst (snd (start_stream l w source_id framerate None)) =
       (case fst (wait_first_segment w p 0 40) of
          Some (r, h') \<Rightarrow> h'
        | None \<Rightarrow> None)"
  by (cases "prepare_hls_dir w"; cases "wait_first_segment w p 0 40")
     (auto simp: start_stream_def split: option.splits)

lemma port_text: "str_int CONTROL_PORT = ''8000''"
  by (simp add: str_int_def CONTROL_PORT_def str_nat.simps digit_char_def)

lemma framerate_text: "str_int default_framerate = ''30''"
  by (simp add: str_int_def default_framerate_def str_nat.simps digit_char_def)

lemma parse_body_decode_error:
  "json_loads l b = Inl JSONDecodeError \<Longrightarrow> parse_body l b = Inr (JObj [])"
  by (simp add: parse_body_def)

lemma parse_body_other_error:
  "b \<noteq> [] \<Longrightarrow> json_loads l b = Inl e \<Longrightarrow> e \<noteq> JSONDecodeError \<Longrightarrow> parse_body l b = Inl e"
  by (simp add: parse_body_def)

lemma prepare_no_popen: "Popen a \<notin> set (snd (prepare_hls_dir w))"
  by (simp add: prepare_hls_dir_def split: option.splits)

lemma wait_no_popen: "Popen a \<notin> set (snd (wait_first_segment w p i n))"
  by (induction n arbitrary: i) (simp_all add: case_prod_beta)

lemma give_up_no_popen: "Popen a \<notin> set (give_up w p)"
  by (simp add: give_up_def split: sum.splits)

lemma start_stream_popen:
  assumes "Popen a \<in> set (snd (snd (start_stream l w source_id framerate h)))"
  shows "a = ffmpeg_cmd l source_id framerate"
proof -
  have prep: "Popen a \<notin> set evs" if "prepare_hls_dir w = (x, evs)" for x evs
    using prepare_no_popen [of a w] that by simp
  have loop: "Popen a \<notin> set evs" if "wait_first_segment w p 0 40 = (x, evs)" for p x evs
    using wait_no_popen [of a w p 0 40] that by simp
  from assms show ?thesis
    using give_up_no_popen [of a w]
    by (auto simp: start_stream_def split: option.splits prod.splits sum.splits
        dest: prep loop)
qed

lemma start_stream_spawns:
  "fst (prepare_hls_dir w) = None \<Longrightarrow> popen_result w = Inr p \<Longrightarrow>
     Popen (ffmpeg_cmd l source_id framerate) \<in>
       set (snd (snd (start_stream l w source_id framerate None)))"
  by (cases "prepare_hls_dir w"; cases "wait_first_segment w p 0 40")
     (auto simp: start_stream_def split: option.splits)

lemma do_POST_start_effects:
  "req_path r = ''/api/start'' \<Longrightarrow> request_data l r = Inr data \<Longrightarrow> get_id data = Inr source_id \<Longrightarrow>
     snd (do_POST l w h r) = snd (start_stream l w source_id default_framerate h)"
  by (cases "start_stream l w source_id default_framerate h")
     (auto simp: do_POST_def split: sum.splits)

lemma do_POST_start_popen:
  assumes "req_path r = ''/api/start''"
    and "Popen a \<in> set (snd (snd (do_POST l w h r)))"
  shows "\<exists>data source_id. request_data l r = Inr data \<and> get_id data = Inr source_id
           \<and> a = ffmpeg_cmd l source_id default_framerate"
proof (cases "request_data l r")
  case (Inl e)
  with assms show ?thesis by (simp add: do_POST_def)
next
  case (Inr data)
  show ?thesis
  proof (cases "get_id data")
    case (Inl e)
    with Inr assms show ?thesis by (simp add: do_POST_def)
  next
    case sid: (Inr source_id)
    from do_POST_start_effects [OF assms(1) Inr sid] assms(2)
    have "a = ffmpeg_cmd l source_id default_framerate"
      by (simp add: start_stream_popen)
    with Inr sid show ?thesis by simp
  qed
qed

lemma example_data_empty: "request_data example_lib (start_request ''{}'') = Inr (JObj [])"
  by (simp add: request_data_def read_content_len_def parse_body_def rfile_read_def
      example_lib_def start_request_def)

lemma world_ok_launch: "fst (prepare_hls_dir world_ok) = None" "popen_result world_ok = Inr 4242"
  by (simp_all add: prepare_hls_dir_def world_ok_def)

lemma prepare_quiet: "slept (snd (prepare_hls_dir w)) = 0" "polls (snd (prepare_hls_dir w)) = 0"
  by (simp_all add: prepare_hls_dir_def split: option.splits)

lemma give_up_quiet: "slept (give_up w p) = 0" "polls (give_up w p) = 0"
  by (simp_all add: give_up_def split: sum.splits)

lemma wait_slept_polls:
  "slept (snd (wait_first_segment w p i n)) = 250 * polls (snd (wait_first_segment w p i n))"
  by (induction n arbitrary: i) (simp_all add: case_prod_beta)

lemma start_stream_effects:
  "polls (snd (snd (start_stream l w source_id framerate h))) \<le> 40
   \<and> slept (snd (snd (start_stream l w source_id framerate h))) =
       250 * polls (snd (snd (start_stream l w source_id framerate h)))"
proof (cases h)
  case (Some q)
  then show ?thesis by (simp add: start_stream_def)
next
  case None
  obtain x evs where prep: "prepare_hls_dir w = (x, evs)"
    by (cases "prepare_hls_dir w")
  with prepare_quiet [of w] have quiet: "slept evs = 0" "polls evs = 0"
    by simp_all
  show ?thesis
  proof (cases x)
    case (Some e)
    with None prep quiet show ?thesis
      by (simp add: start_stream_def)
  next
    case ok: None
    show ?thesis
    proof (cases "popen_result w")
      case (Inl e)
      with None prep ok quiet show ?thesis
        by (simp add: start_stream_def slept_append polls_append)
    next
      case (Inr p)
      obtain y evs' where loop: "wait_first_segment w p 0 40 = (y, evs')"
        by (cases "wait_first_segment w p 0 40")
      with wait_polls [of w p 0 40] wait_slept_polls [of w p 0 40]
      have bound: "polls evs' \<le> 40" "slept evs' = 250 * polls evs'"
        by simp_all
      from None prep ok Inr loop quiet bound show ?thesis
        by (cases y) (auto simp: start_stream_def slept_append polls_append give_up_quiet)
    qed
  qed
qed

lemma start_stream_results:
  "fst (start_stream l w source_id framerate h) = Inr (True, ''Already running'')
   \<or> fst (start_stream l w source_id framerate h) = Inr (True, ''Started'')
   \<or> fst (start_stream l w source_id framerate h) = Inr (False, msg_permission)
   \<or> fst (start_stream l w source_id framerate h) = Inr (False, msg_no_segments)
   \<or> (\<exists>e. fst (start_stream l w source_id framerate h) = Inl e
          \<and> (fst (prepare_hls_dir w) = Some e \<or> popen_result w = Inl e)
          \<and> h = None
          \<and> fst (snd (start_stream l w source_id framerate h)) = None
          \<and> polls (snd (snd (start_stream l w source_id framerate h))) = 0)"
proof (cases h)
  case (Some q)
  then show ?thesis by (simp add: start_stream_def)
next
  case None
  show ?thesis
  proof (cases "fst (prepare_hls_dir w)")
    case (Some e)
    with None prepare_quiet(2) [of w] show ?thesis
      by (cases "prepare_hls_dir w") (simp add: start_stream_def)
  next
    case prep: None
    show ?thesis
    proof (cases "popen_result w")
      case (Inl e)
      with None prep prepare_quiet(2) [of w] show ?thesis
        by (cases "prepare_hls_dir w") (simp add: start_stream_def polls_append)
    next
      case (Inr q)
      from wait_outcomes [of w q 0 40] None start_stream_idle [OF prep Inr, of l source_id framerate]
      show ?thesis by auto
    qed
  qed
qed

lemma send_error_status: "status (send_error l code) = code"
  by (simp add: send_error_def)

lemma send_error_no_cors: "\<not> allows_cross_origin (send_error l code)"
  by (simp add: allows_cross_origin_def send_error_def send_response_def)

lemma send_json_no_cors: "\<not> allows_cross_origin (send_json l data)"
  by (simp add: allows_cross_origin_def send_json_def send_response_def)

lemma serve_file_effects: "snd (serve_file l w filepath content_type cache) = [OpenFile filepath]"
  by (simp add: serve_file_def split: sum.splits)

lemma serve_file_cors:
  "fst (serve_file l w filepath content_type cache) = Inr r \<Longrightarrow>
     allows_cross_origin r \<longleftrightarrow> (\<exists>content. open_result w filepath = Inr content)"
  by (auto simp: serve_file_def allows_cross_origin_def send_error_def send_response_def
      split: sum.splits if_splits)

lemma serve_file_ok:
  "fst (serve_file l w filepath content_type cache) = Inr r \<Longrightarrow>
     status r = 200 \<longleftrightarrow> (\<exists>content. open_result w filepath = Inr content)"
  by (auto simp: serve_file_def send_error_def split: sum.splits if_splits)

lemma do_GET_shape:
  "(\<exists>filepath content_type cache. do_GET l w h path = serve_file l w filepath content_type cache)
   \<or> (\<exists>r evs. do_GET l w h path = (Inr r, evs) \<and> \<not> allows_cross_origin r
         \<and> (\<forall>filepath. evs \<noteq> [OpenFile filepath]))
   \<or> (\<exists>e evs. do_GET l w h path = (Inl e, evs))"
proof -
  consider (project) "path = ''/project''"
    | (index) "path \<noteq> ''/project''" "path = ''/'' \<or> path = ''/index.html''"
    | (hls) "path \<noteq> ''/project''" "\<not> (path = ''/'' \<or> path = ''/index.html'')"
        "startswith path ''/hls/''"
    | (status) "path \<noteq> ''/project''" "\<not> (path = ''/'' \<or> path = ''/index.html'')"
        "\<not> startswith path ''/hls/''" "path = ''/api/status''"
    | (sources) "path \<noteq> ''/project''" "\<not> (path = ''/'' \<or> path = ''/index.html'')"
        "\<not> startswith path ''/hls/''" "path \<noteq> ''/api/status''" "path = ''/api/sources''"
    | (other) "path \<noteq> ''/project''" "\<not> (path = ''/'' \<or> path = ''/index.html'')"
        "\<not> startswith path ''/hls/''" "path \<noteq> ''/api/status''" "path \<noteq> ''/api/sources''"
    by blast
  then show ?thesis
  proof cases
    case project
    then have "do_GET l w h path =
        serve_file l w (path_join (static_dir l) ''control.html'') ''text/html'' False"
      by (simp add: do_GET_def)
    then show ?thesis by blast
  next
    case index
    show ?thesis
    proof (cases h)
      case (Some q)
      with index have "do_GET l w h path =
          serve_file l w (path_join (static_dir l) ''viewer.html'') ''text/html'' False"
        by (simp only: do_GET_def if_True if_False option.simps simp_thms)
      then show ?thesis by blast
    next
      case None
      have "\<not> allows_cross_origin
         \<lparr>status = 200,
          headers = send_response l @
            [(''Content-Type'', ''text/html''),
             (''Content-Length'', str_nat (length placeholder_page))],
          body = placeholder_page\<rparr>"
        by (simp add: allows_cross_origin_def send_response_def)
      moreover from None index have "do_GET l w h path =
         (Inr \<lparr>status = 200,
               headers = send_response l @
                 [(''Content-Type'', ''text/html''),
                  (''Content-Length'', str_nat (length placeholder_page))],
               body = placeholder_page\<rparr>, [])"
        by (simp only: do_GET_def if_True if_False simp_thms)
      ultimately show ?thesis by simp
    qed
  next
    case hls
    show ?thesis
    proof (cases "contains ''..'' (drop 5 path) \<or> contains ''/'' (drop 5 path)")
      case True
      with hls have "do_GET l w h path = (Inr (send_error l 403), [])"
        by (simp only: do_GET_def Let_def if_True if_False simp_thms)
      with send_error_no_cors [of l 403] show ?thesis by simp
    next
      case False
      with hls have "do_GET l w h path =
          serve_file l w (path_join HLS_DIR (drop 5 path)) (mime_type (snd (splitext (drop 5 path))))
            (snd (splitext (drop 5 path)) = ''.ts'')"
        by (simp only: do_GET_def Let_def if_True if_False simp_thms)
      then show ?thesis by blast
    qed
  next
    case status
    then have "do_GET l w h path =
        (Inr (send_json l (JObj
            [(''running'', JBool (h \<noteq> None)),
             (''ip'', JStr (get_local_ip w)),
             (''viewer_url'', if h \<noteq> None then JStr (viewer_url (get_local_ip w)) else JNull)])),
         [])"
      by (simp only: do_GET_def Let_def if_True if_False simp_thms)
    with send_json_no_cors show ?thesis by simp
  next
    case sources
    then have eq: "do_GET l w h path =
        (case list_screens l w of
           (Inl e, evs) \<Rightarrow> (Inl e, evs)
         | (Inr screens, evs) \<Rightarrow> (Inr (send_json l (JObj [(''screens'', screens)])), evs))"
      by (simp only: do_GET_def Let_def if_True if_False simp_thms)
    show ?thesis
    proof (cases "devices_result w")
      case (Inl e)
      with eq show ?thesis by (simp add: list_screens_def)
    next
      case (Inr out)
      with eq send_json_no_cors show ?thesis by (simp add: list_screens_def)
    qed
  next
    case other
    then have "do_GET l w h path = (Inr (send_error l 404), [])"
      by (simp only: do_GET_def Let_def if_True if_False simp_thms)
    with send_error_no_cors [of l 404] show ?thesis by simp
  qed
qed

lemma do_POST_no_cors:
  assumes "fst (do_POST l w h rq) = Inr r"
  shows "\<not> allows_cross_origin r"
proof -
  have "r = send_error l 404 \<or> (\<exists>data. r = send_json l data)"
  proof (cases "req_path rq = ''/api/start''")
    case True
    show ?thesis
    proof (cases "request_data l rq")
      case (Inl e)
      with True assms show ?thesis by (simp add: do_POST_def)
    next
      case (Inr data)
      show ?thesis
      proof (cases "get_id data")
        case (Inl e)
        with True Inr assms show ?thesis by (simp add: do_POST_def)
      next
        case sid: (Inr source_id)
        obtain x h' evs where st: "start_stream l w source_id default_framerate h = (x, h', evs)"
          by (cases "start_stream l w source_id default_framerate h")
        show ?thesis
        proof (cases x)
          case (Inl e)
          with True Inr sid st assms show ?thesis by (simp add: do_POST_def)
        next
          case res: (Inr okmsg)
          obtain ok msg where "okmsg = (ok, msg)" by (cases okmsg)
          with res True Inr sid st assms have "r = start_reply l w ok msg"
            by (simp add: do_POST_def)
          then show ?thesis by (auto simp: start_reply_def Let_def)
        qed
      qed
    qed
  next
    case False
    with assms show ?thesis
      by (cases "stop_stream w h") (auto simp: do_POST_def split: if_splits)
  qed
  with send_error_no_cors send_json_no_cors show ?thesis by auto
qed

lemma example_manifest:
  "do_GET example_lib world_ok (Some 7) ''/hls/stream.m3u8'' =
     serve_file example_lib world_ok ''/tmp/projector-stream/stream.m3u8''
       ''application/vnd.apple.mpegurl'' False"
  by (simp add: do_GET_def startswith_def Let_def path_join_def HLS_DIR_def splitext_def
      rfind_def mime_type_def MIME_TYPES_def upt_rec)

subsection \<open>Starting while a session is active\<close>

text \<open>
  Claim C1. Whenever a session is active (the handle holds a process), \<open>start_stream\<close>
  returns \<open>(True, "Already running")\<close> at once: the handle is returned unchanged and
  the list of effects is empty, so no process is spawned and nothing else is touched.
\<close>

theorem start_when_running:
  "h \<noteq> None \<Longrightarrow>
     start_stream l w source_id framerate h = (Inr (True, ''Already running''), h, [])"
  by (cases h) (simp_all add: start_stream_def)

theorem start_when_running_witness:
  "Some (7::nat) \<noteq> None \<and>
   start_stream example_lib world_ok (JStr ''3'') 30 (Some 7) =
     (Inr (True, ''Already running''), Some 7, [])"
  using start_when_running [of "Some 7" example_lib world_ok "JStr ''3''" 30]
  by simp

subsection \<open>Segment requests with traversal\<close>

text \<open>
  Claim C2. A GET request whose path is \<open>/hls/\<close> followed by a file name that has
  \<open>..\<close> or \<open>/\<close> somewhere inside is answered with status 403 and with no effect at
  all: no file is opened or looked up, whatever the world holds.
\<close>

theorem hls_traversal_rejected:
  assumes "path = ''/hls/'' @ filename"
    and "(\<exists>a b. filename = a @ ''..'' @ b) \<or> (\<exists>a b. filename = a @ ''/'' @ b)"
  shows "do_GET l w h path = (Inr (send_error l 403), []) \<and> status (send_error l 403) = 403"
proof -
  from assms(2) have bad: "contains ''..'' filename \<or> contains ''/'' filename"
    by (simp only: contains_iff)
  have hls: "startswith path ''/hls/''" and rest: "drop 5 path = filename"
    using assms(1) by (simp_all add: startswith_def)
  have other: "path \<noteq> ''/project''" "path \<noteq> ''/''" "path \<noteq> ''/index.html''"
    using assms(1) by auto
  have "do_GET l w h path = (Inr (send_error l 403), [])"
    using bad hls rest other by (simp add: do_GET_def)
  moreover have "status (send_error l 403) = 403"
    by (simp add: send_error_def)
  ultimately show ?thesis ..
qed

theorem hls_traversal_rejected_witness:
  "do_GET example_lib world_ok None ''/hls/../server.py'' = (Inr (send_error example_lib 403), [])
   \<and> do_GET example_lib world_ok (Some 7) ''/hls/a/stream.m3u8'' = (Inr (send_error example_lib 403), [])"
proof -
  have a: "''../server.py'' = [] @ ''..'' @ ''/server.py''" by simp
  have b: "''a/stream.m3u8'' = ''a'' @ ''/'' @ ''stream.m3u8''" by simp
  have "do_GET example_lib world_ok None (''/hls/'' @ ''../server.py'') = (Inr (send_error example_lib 403), [])"
    using hls_traversal_rejected [of "''/hls/'' @ ''../server.py''" "''../server.py''" example_lib world_ok None] a
    by blast
  moreover
  have "do_GET example_lib world_ok (Some 7) (''/hls/'' @ ''a/stream.m3u8'') = (Inr (send_error example_lib 403), [])"
    using hls_traversal_rejected [of "''/hls/'' @ ''a/stream.m3u8''" "''a/stream.m3u8''" example_lib world_ok "Some 7"] b
    by blast
  ultimately show ?thesis by simp
qed

subsection \<open>The two failures of start\<close>

text \<open>
  The failures that \<open>start_stream\<close> returns. The two failure messages differ; a
  returned \<open>(False, m)\<close> carries one of them and leaves the handle cleared. With no
  session active and the process launched as \<open>p\<close>: if some poll \<open>k < 40\<close> finds the
  process exited (no earlier poll having ended the wait), the result is
  \<open>(False, msg_permission)\<close> and the handle is \<open>None\<close>; if all 40 polls find it alive and
  the manifest missing, the process is terminated, the result is
  \<open>(False, msg_no_segments)\<close> and the handle is \<open>None\<close>.
\<close>

lemma start_returned_failures:
  "msg_permission \<noteq> msg_no_segments
   \<and> (fst (start_stream l w source_id framerate h) = Inr (False, m) \<longrightarrow>
        (m = msg_permission \<or> m = msg_no_segments)
        \<and> fst (snd (start_stream l w source_id framerate h)) = None)
   \<and> (h = None \<and> fst (prepare_hls_dir w) = None \<and> popen_result w = Inr p
        \<and> k < 40 \<and> poll_exited w k
        \<and> (\<forall>j<k. \<not> poll_exited w j \<and> \<not> manifest_present w j) \<longrightarrow>
        fst (start_stream l w source_id framerate h) = Inr (False, msg_permission)
        \<and> fst (snd (start_stream l w source_id framerate h)) = None)
   \<and> (h = None \<and> fst (prepare_hls_dir w) = None \<and> popen_result w = Inr p
        \<and> (\<forall>j<40. \<not> poll_exited w j \<and> \<not> manifest_present w j) \<longrightarrow>
        fst (start_stream l w source_id framerate h) = Inr (False, msg_no_segments)
        \<and> fst (snd (start_stream l w source_id framerate h)) = None
        \<and> Terminate p \<in> set (snd (snd (start_stream l w source_id framerate h))))"
proof (intro conjI impI)
  show "msg_permission \<noteq> msg_no_segments"
    by (rule messages_distinct)
next
  assume failed: "fst (start_stream l w source_id framerate h) = Inr (False, m)"
  have "(m = msg_permission \<or> m = msg_no_segments)
        \<and> fst (snd (start_stream l w source_id framerate h)) = None"
  proof (cases h)
    case (Some q)
    with failed show ?thesis
      by (simp add: start_stream_def)
  next
    case None
    show ?thesis
    proof (cases "fst (prepare_hls_dir w)")
      case (Some e)
      with None failed show ?thesis
        by (cases "prepare_hls_dir w") (simp add: start_stream_def)
    next
      case prep: None
      show ?thesis
      proof (cases "popen_result w")
        case (Inl e)
        with None prep failed show ?thesis
          by (cases "prepare_hls_dir w") (simp add: start_stream_def)
      next
        case (Inr q)
        note idle = start_stream_idle [OF prep Inr, of l source_id framerate]
        from wait_outcomes [of w q 0 40] failed None idle show ?thesis
          by auto
      qed
    qed
  qed
  then show "m = msg_permission \<or> m = msg_no_segments"
    and "fst (snd (start_stream l w source_id framerate h)) = None"
    by simp_all
next
  assume a: "h = None \<and> fst (prepare_hls_dir w) = None \<and> popen_result w = Inr p
        \<and> k < 40 \<and> poll_exited w k
        \<and> (\<forall>j<k. \<not> poll_exited w j \<and> \<not> manifest_present w j)"
  then have "fst (wait_first_segment w p 0 40) = Some ((False, msg_permission), None)"
    by (intro wait_exit [of k]) simp_all
  with a start_stream_idle [of w p l source_id framerate]
  show "fst (start_stream l w source_id framerate h) = Inr (False, msg_permission)"
    and "fst (snd (start_stream l w source_id framerate h)) = None"
    by simp_all
next
  assume a: "h = None \<and> fst (prepare_hls_dir w) = None \<and> popen_result w = Inr p
        \<and> (\<forall>j<40. \<not> poll_exited w j \<and> \<not> manifest_present w j)"
  then have hang: "fst (wait_first_segment w p 0 40) = None"
    by (intro wait_hang) simp
  with a start_stream_idle [of w p l source_id framerate]
  show "fst (start_stream l w source_id framerate h) = Inr (False, msg_no_segments)"
    and "fst (snd (start_stream l w source_id framerate h)) = None"
    by simp_all
  from a hang show "Terminate p \<in> set (snd (snd (start_stream l w source_id framerate h)))"
    by (cases "prepare_hls_dir w"; cases "wait_first_segment w p 0 40")
       (simp add: start_stream_def give_up_terminates)
qed

text \<open>
  The failures that \<open>start_stream\<close> does not return. The segment directory is
  recreated and the process launched outside any \<open>try\<close> block, so an exception of
  either leaves \<open>start_stream\<close> at once, with no message and with the handle still
  \<open>None\<close>.
\<close>

lemma start_stream_raises:
  "(fst (prepare_hls_dir w) = Some e \<longrightarrow>
      start_stream l w source_id framerate None = (Inl e, None, snd (prepare_hls_dir w)))
   \<and> (fst (prepare_hls_dir w) = None \<and> popen_result w = Inl e \<longrightarrow>
      start_stream l w source_id framerate None =
        (Inl e, None, snd (prepare_hls_dir w) @ [Popen (ffmpeg_cmd l source_id framerate)]))"
  by (cases "prepare_hls_dir w") (simp add: start_stream_def)

text \<open>
  Claim C3 says that \<open>start\<close> has exactly two failure outcomes, each with its message.
  With no session active and the capture executable missing, \<open>subprocess.Popen\<close>
  raises \<open>FileNotFoundError\<close> after the segment directory has been created: \<open>start\<close>
  fails in a third way, with neither message, before any poll.
\<close>

theorem start_third_failure_outcome:
  "start_stream example_lib world_no_ffmpeg (JStr ''3'') 30 None =
     (Inl FileNotFoundError, None,
      [PathExists ''/tmp/projector-stream'', Makedirs ''/tmp/projector-stream'',
       Popen (ffmpeg_cmd example_lib (JStr ''3'') 30)])"
  by (simp add: start_stream_def prepare_hls_dir_def world_no_ffmpeg_def world_ok_def HLS_DIR_def)

subsection \<open>Stopping\<close>

text \<open>
  Claim C5. \<open>stop_stream\<close> is total and idempotent: with no session it does nothing;
  with a session \<open>p\<close> it kills \<open>p\<close>, waits for it (two seconds at most) and clears the
  handle, whether or not the wait raises; stopping again after any stop does nothing.
  In every state POST /api/stop sends a reply with status 200, content type
  \<open>application/json\<close> and, as its body, the JSON text of
  \<open>{"ok": true, "message": "Stopped"}\<close>, and leaves the handle cleared.
\<close>

theorem stop_idempotent_total:
  "stop_stream w None = (None, [])
   \<and> stop_stream w (Some p) = (None, [Kill p, Wait p 2000])
   \<and> stop_stream w' (fst (stop_stream w h)) = (None, [])
   \<and> do_POST l w h \<lparr>req_path = ''/api/stop'', content_length = c, rfile = b\<rparr> =
       (Inr \<lparr>status = 200,
             headers =
               [(''Server'', version_string l),
                (''Date'', date_time_string l),
                (''Content-Type'', ''application/json''),
                (''Content-Length'', str_nat (length (json_dumps l
                   (JObj [(''ok'', JBool True), (''message'', JStr ''Stopped'')]))))],
             body = json_dumps l (JObj [(''ok'', JBool True), (''message'', JStr ''Stopped'')])\<rparr>,
        None, snd (stop_stream w h))"
  by (cases h; cases "wait_error w")
     (simp_all add: stop_stream_def do_POST_def send_json_def send_response_def)

theorem stop_idempotent_total_witness:
  "do_POST example_lib world_ok (Some 7) \<lparr>req_path = ''/api/stop'', content_length = None, rfile = []\<rparr> =
     (Inr \<lparr>status = 200,
           headers =
             [(''Server'', ''BaseHTTP/0.6 Python/3.12.0''),
              (''Date'', ''Thu, 01 Jan 2026 00:00:00 GMT''),
              (''Content-Type'', ''application/json''),
              (''Content-Length'', ''34'')],
           body = ''{'' @ quoted ''ok'' @ '': true, '' @ quoted ''message'' @ '': '' @
                  quoted ''Stopped'' @ ''}''\<rparr>,
      None, [Kill 7, Wait 7 2000])
   \<and> stop_stream world_ok None = (None, [])"
  using stop_idempotent_total [of world_ok 7 world_ok "Some 7" example_lib None "[]"]
  by (simp add: example_lib_def quoted_def str_nat.simps digit_char_def)

subsection \<open>Status\<close>

text \<open>
  Claim C7. GET /api/status sends a reply with status 200 and content type
  \<open>application/json\<close> whose body is the JSON text of an object with the members
  \<open>running\<close>, \<open>ip\<close> and \<open>viewer_url\<close>: \<open>running = false\<close> and \<open>viewer_url = null\<close> when no
  session is active, \<open>running = true\<close> and the URL \<open>http://<address>:8000\<close> when one is.
  The address is the one \<open>get_local_ip\<close> found: the local address of the throwaway
  socket, or \<open>127.0.0.1\<close> when the socket calls raise.
\<close>

theorem status_reports_session:
  "do_GET l w None ''/api/status'' =
     (Inr \<lparr>status = 200,
           headers =
             [(''Server'', version_string l),
              (''Date'', date_time_string l),
              (''Content-Type'', ''application/json''),
              (''Content-Length'', str_nat (length (json_dumps l (JObj
                 [(''running'', JBool False), (''ip'', JStr (get_local_ip w)),
                  (''viewer_url'', JNull)]))))],
           body = json_dumps l (JObj
             [(''running'', JBool False), (''ip'', JStr (get_local_ip w)),
              (''viewer_url'', JNull)])\<rparr>,
      [])
   \<and> do_GET l w (Some p) ''/api/status'' =
     (Inr \<lparr>status = 200,
           headers =
             [(''Server'', version_string l),
              (''Date'', date_time_string l),
              (''Content-Type'', ''application/json''),
              (''Content-Length'', str_nat (length (json_dumps l (JObj
                 [(''running'', JBool True), (''ip'', JStr (get_local_ip w)),
                  (''viewer_url'', JStr (''http://'' @ get_local_ip w @ '':8000''))]))))],
           body = json_dumps l (JObj
             [(''running'', JBool True), (''ip'', JStr (get_local_ip w)),
              (''viewer_url'', JStr (''http://'' @ get_local_ip w @ '':8000''))])\<rparr>,
      [])
   \<and> (sock_result w = Inr ip \<longrightarrow> get_local_ip w = ip)
   \<and> (sock_result w = Inl e \<longrightarrow> get_local_ip w = ''127.0.0.1'')"
proof -
  have idle: "do_GET l w None ''/api/status'' =
     (Inr (send_json l (JObj
        [(''running'', JBool False), (''ip'', JStr (get_local_ip w)), (''viewer_url'', JNull)])), [])"
    by (simp add: do_GET_def startswith_def Let_def)
  have active: "do_GET l w (Some p) ''/api/status'' =
     (Inr (send_json l (JObj
        [(''running'', JBool True), (''ip'', JStr (get_local_ip w)),
         (''viewer_url'', JStr (''http://'' @ get_local_ip w @ '':8000''))])), [])"
    by (simp add: do_GET_def startswith_def Let_def viewer_url_def port_text)
  have found: "get_local_ip w = ip" if "sock_result w = Inr ip"
    using that by (simp add: get_local_ip_def)
  have fallback: "get_local_ip w = ''127.0.0.1''" if "sock_result w = Inl e"
    using that by (simp add: get_local_ip_def)
  from idle active found fallback show ?thesis
    by (simp add: send_json_def send_response_def)
qed

theorem status_reports_session_witness:
  "do_GET example_lib world_ok (Some 7) ''/api/status'' =
     (Inr \<lparr>status = 200,
           headers =
             [(''Server'', ''BaseHTTP/0.6 Python/3.12.0''),
              (''Date'', ''Thu, 01 Jan 2026 00:00:00 GMT''),
              (''Content-Type'', ''application/json''),
              (''Content-Length'', ''81'')],
           body = ''{'' @ quoted ''running'' @ '': true, '' @ quoted ''ip'' @ '': '' @
                  quoted ''192.168.1.20'' @ '', '' @ quoted ''viewer_url'' @ '': '' @
                  quoted ''http://192.168.1.20:8000'' @ ''}''\<rparr>,
      [])
   \<and> do_GET example_lib world_offline None ''/api/status'' =
     (Inr \<lparr>status = 200,
           headers =
             [(''Server'', ''BaseHTTP/0.6 Python/3.12.0''),
              (''Date'', ''Thu, 01 Jan 2026 00:00:00 GMT''),
              (''Content-Type'', ''application/json''),
              (''Content-Length'', ''57'')],
           body = ''{'' @ quoted ''running'' @ '': false, '' @ quoted ''ip'' @ '': '' @
                  quoted ''127.0.0.1'' @ '', '' @ quoted ''viewer_url'' @ '': null}''\<rparr>,
      [])"
proof -
  have a: "sock_result world_ok = Inr ''192.168.1.20''"
    by (simp add: world_ok_def)
  have b: "sock_result world_offline = Inl OtherOSError"
    by (simp add: world_offline_def world_ok_def)
  from status_reports_session [of example_lib world_ok 7 "''192.168.1.20''" OtherOSError] a
  have "do_GET example_lib world_ok (Some 7) ''/api/status'' =
     (Inr \<lparr>status = 200,
           headers =
             [(''Server'', ''BaseHTTP/0.6 Python/3.12.0''),
              (''Date'', ''Thu, 01 Jan 2026 00:00:00 GMT''),
              (''Content-Type'', ''application/json''),
              (''Content-Length'', ''81'')],
           body = ''{'' @ quoted ''running'' @ '': true, '' @ quoted ''ip'' @ '': '' @
                  quoted ''192.168.1.20'' @ '', '' @ quoted ''viewer_url'' @ '': '' @
                  quoted ''http://192.168.1.20:8000'' @ ''}''\<rparr>,
      [])"
    by (simp add: example_lib_def quoted_def str_nat.simps digit_char_def)
  moreover
  from status_reports_session [of example_lib world_offline 7 "''192.168.1.20''" OtherOSError] b
  have "do_GET example_lib world_offline None ''/api/status'' =
     (Inr \<lparr>status = 200,
           headers =
             [(''Server'', ''BaseHTTP/0.6 Python/3.12.0''),
              (''Date'', ''Thu, 01 Jan 2026 00:00:00 GMT''),
              (''Content-Type'', ''application/json''),
              (''Content-Length'', ''57'')],
           body = ''{'' @ quoted ''running'' @ '': false, '' @ quoted ''ip'' @ '': '' @
                  quoted ''127.0.0.1'' @ '', '' @ quoted ''viewer_url'' @ '': null}''\<rparr>,
      [])"
    by (simp add: example_lib_def quoted_def str_nat.simps digit_char_def)
  ultimately show ?thesis ..
qed

subsection \<open>What POST /api/start launches\<close>

text \<open>
  Claim C9. Whatever a POST /api/start request holds, a capture process that it
  launches is launched with frame rate 30: the handler calls \<open>start_stream\<close> with the
  source identifier only, so \<open>-framerate\<close>, \<open>-enc_time_base\<close> and \<open>-g\<close> are built from
  the default. When the request's data is an object without the key \<open>id\<close>, the source
  is the fallback \<open>"3"\<close>, so the input argument is \<open>3:none\<close>.
\<close>

theorem post_start_framerate:
  assumes "req_path r = ''/api/start''"
    and "Popen argv \<in> set (snd (snd (do_POST l w h r)))"
  shows "(\<exists>source_id. argv = ffmpeg_cmd l source_id 30)
     \<and> take 2 (drop 3 argv) = [''-framerate'', ''30'']
     \<and> take 2 (drop 9 argv) = [''-enc_time_base'', ''1/30'']
     \<and> take 2 (drop 15 argv) = [''-g'', ''30'']
     \<and> (\<forall>kvs. request_data l r = Inr (JObj kvs) \<and> map_of kvs ''id'' = None \<longrightarrow>
           argv = ffmpeg_cmd l (JStr ''3'') 30 \<and> take 2 (drop 7 argv) = [''-i'', ''3:none''])"
proof -
  from do_POST_start_popen [OF assms]
  obtain data source_id where d: "request_data l r = Inr data"
    and i: "get_id data = Inr source_id"
    and a: "argv = ffmpeg_cmd l source_id 30"
    by (auto simp: default_framerate_def)
  have thirty: "str_int 30 = ''30''"
    using framerate_text by (simp add: default_framerate_def)
  have "\<exists>source_id. argv = ffmpeg_cmd l source_id 30"
    using a by blast
  moreover have "take 2 (drop 3 argv) = [''-framerate'', ''30'']"
    "take 2 (drop 9 argv) = [''-enc_time_base'', ''1/30'']"
    "take 2 (drop 15 argv) = [''-g'', ''30'']"
    using a by (simp_all add: ffmpeg_cmd_def thirty)
  moreover have "argv = ffmpeg_cmd l (JStr ''3'') 30 \<and> take 2 (drop 7 argv) = [''-i'', ''3:none'']"
    if "request_data l r = Inr (JObj kvs) \<and> map_of kvs ''id'' = None" for kvs
  proof -
    from that d i have "source_id = JStr ''3''"
      by (auto simp: get_id_def)
    with a show ?thesis
      by (simp add: ffmpeg_cmd_def format_field_def)
  qed
  ultimately show ?thesis by blast
qed

theorem post_start_framerate_witness:
  "Popen (ffmpeg_cmd example_lib (JStr ''3'') 30)
     \<in> set (snd (snd (do_POST example_lib world_ok None (start_request ''{}''))))
   \<and> take 2 (drop 3 (ffmpeg_cmd example_lib (JStr ''3'') 30)) = [''-framerate'', ''30'']
   \<and> take 2 (drop 7 (ffmpeg_cmd example_lib (JStr ''3'') 30)) = [''-i'', ''3:none'']"
proof -
  have p: "req_path (start_request ''{}'') = ''/api/start''"
    by (simp add: start_request_def)
  have g: "get_id (JObj []) = Inr (JStr ''3'')"
    by (simp add: get_id_def)
  have ev: "Popen (ffmpeg_cmd example_lib (JStr ''3'') 30)
     \<in> set (snd (snd (do_POST example_lib world_ok None (start_request ''{}''))))"
    using do_POST_start_effects [OF p example_data_empty g, of world_ok None]
      start_stream_spawns [OF world_ok_launch, of example_lib "JStr ''3''" 30]
    by (simp add: default_framerate_def)
  from post_start_framerate [OF p ev] example_data_empty show ?thesis
    using ev by simp
qed

subsection \<open>The bounded wait of start\<close>

text \<open>
  The ways \<open>start_stream\<close> ends. There are five: the four results
  \<open>(True, "Already running")\<close>, \<open>(True, "Started")\<close>, the early-exit failure and the
  no-output failure, or, with no session active, the exception that the preparation
  of the segment directory or the launch of the process raised. The wait is a loop of
  at most 40 polls, each after one sleep of 250 ms, so at most 10 seconds of sleep.
  Whenever a session is active, or the directory is prepared and the process launched,
  the outcome is a definite \<open>(ok, message)\<close> result.
\<close>

lemma start_wait_bounded:
  "(fst (start_stream l w source_id framerate h) = Inr (True, ''Already running'')
    \<or> fst (start_stream l w source_id framerate h) = Inr (True, ''Started'')
    \<or> fst (start_stream l w source_id framerate h) = Inr (False, msg_permission)
    \<or> fst (start_stream l w source_id framerate h) = Inr (False, msg_no_segments)
    \<or> (\<exists>e. fst (start_stream l w source_id framerate h) = Inl e
          \<and> (fst (prepare_hls_dir w) = Some e \<or> popen_result w = Inl e)
          \<and> h = None
          \<and> fst (snd (start_stream l w source_id framerate h)) = None
          \<and> polls (snd (snd (start_stream l w source_id framerate h))) = 0))
   \<and> polls (snd (snd (start_stream l w source_id framerate h))) \<le> 40
   \<and> slept (snd (snd (start_stream l w source_id framerate h))) =
       250 * polls (snd (snd (start_stream l w source_id framerate h)))
   \<and> slept (snd (snd (start_stream l w source_id framerate h))) \<le> 10000
   \<and> ((h \<noteq> None \<or> (fst (prepare_hls_dir w) = None \<and> (\<exists>p. popen_result w = Inr p))) \<longrightarrow>
        (\<exists>ok msg. fst (start_stream l w source_id framerate h) = Inr (ok, msg)))"
proof -
  note eff = start_stream_effects [of l w source_id framerate h]
  note res = start_stream_results [of l w source_id framerate h]
  have "slept (snd (snd (start_stream l w source_id framerate h))) \<le> 10000"
    using eff by simp
  moreover have "\<exists>ok msg. fst (start_stream l w source_id framerate h) = Inr (ok, msg)"
    if "h \<noteq> None \<or> (fst (prepare_hls_dir w) = None \<and> (\<exists>p. popen_result w = Inr p))"
    using res that by auto
  ultimately show ?thesis
    using eff res by blast
qed

text \<open>
  Claim C8 says that \<open>start\<close> always ends with a definite \<open>(ok, message)\<close> result after
  its bounded wait. With no session active and the capture executable missing,
  \<open>subprocess.Popen\<close> raises \<open>FileNotFoundError\<close> and nothing in \<open>start_stream\<close> catches
  it: \<open>start\<close> ends with the exception, without a result and without a single poll or
  sleep, and POST /api/start sends no reply.
\<close>

theorem start_launch_failure_no_result:
  "fst (start_stream example_lib world_no_ffmpeg (JStr ''3'') 30 None) = Inl FileNotFoundError
   \<and> polls (snd (snd (start_stream example_lib world_no_ffmpeg (JStr ''3'') 30 None))) = 0
   \<and> slept (snd (snd (start_stream example_lib world_no_ffmpeg (JStr ''3'') 30 None))) = 0
   \<and> fst (do_POST example_lib world_no_ffmpeg None (start_request ''{}'')) = Inl FileNotFoundError"
proof -
  have st: "start_stream example_lib world_no_ffmpeg (JStr ''3'') 30 None =
      (Inl FileNotFoundError, None,
       [PathExists HLS_DIR, Makedirs HLS_DIR, Popen (ffmpeg_cmd example_lib (JStr ''3'') 30)])"
    by (simp add: start_stream_def prepare_hls_dir_def world_no_ffmpeg_def world_ok_def)
  have p: "req_path (start_request ''{}'') = ''/api/start''"
    by (simp add: start_request_def)
  have g: "get_id (JObj []) = Inr (JStr ''3'')"
    by (simp add: get_id_def)
  have "fst (do_POST example_lib world_no_ffmpeg None (start_request ''{}'')) =
      Inl FileNotFoundError"
    using st p g example_data_empty by (simp add: do_POST_def default_framerate_def)
  with st show ?thesis by simp
qed

subsection \<open>Cross-origin access\<close>

text \<open>
  Claim C6, as amended. The header \<open>Access-Control-Allow-Origin: *\<close> is sent by
  \<open>serve_file\<close> with its status 200 reply and nowhere else. So a reply to a GET
  request carries it exactly when the request opened a file and the file could be
  read; no reply to a POST request carries it; no reply built by \<open>send_json\<close> or by
  \<open>send_error\<close> (403, 404) carries it.
\<close>

theorem cors_only_on_served_files:
  "(fst (do_GET l w h path) = Inr r \<longrightarrow>
      (allows_cross_origin r \<longleftrightarrow>
         (\<exists>filepath content. snd (do_GET l w h path) = [OpenFile filepath]
            \<and> open_result w filepath = Inr content)))
   \<and> (fst (do_POST l w h rq) = Inr r' \<longrightarrow> \<not> allows_cross_origin r')
   \<and> (fst (serve_file l w filepath content_type cache) = Inr r'' \<and> status r'' = 200 \<longrightarrow>
        allows_cross_origin r'')
   \<and> \<not> allows_cross_origin (send_json l data)
   \<and> \<not> allows_cross_origin (send_error l code)"
proof (intro conjI impI)
  assume get: "fst (do_GET l w h path) = Inr r"
  from do_GET_shape [of l w h path]
  show "allows_cross_origin r \<longleftrightarrow>
         (\<exists>filepath content. snd (do_GET l w h path) = [OpenFile filepath]
            \<and> open_result w filepath = Inr content)"
  proof (elim disjE exE conjE)
    fix fp ct c
    assume "do_GET l w h path = serve_file l w fp ct c"
    with get serve_file_cors [of l w fp ct c r] serve_file_effects [of l w fp ct c]
    show ?thesis by simp
  next
    fix r0 evs
    assume "do_GET l w h path = (Inr r0, evs)" "\<not> allows_cross_origin r0"
      "\<forall>filepath. evs \<noteq> [OpenFile filepath]"
    with get show ?thesis by auto
  next
    fix e evs
    assume "do_GET l w h path = (Inl e, evs)"
    with get show ?thesis by simp
  qed
next
  assume "fst (do_POST l w h rq) = Inr r'"
  then show "\<not> allows_cross_origin r'"
    by (rule do_POST_no_cors)
next
  assume "fst (serve_file l w filepath content_type cache) = Inr r'' \<and> status r'' = 200"
  then show "allows_cross_origin r''"
    using serve_file_cors [of l w filepath content_type cache r'']
      serve_file_ok [of l w filepath content_type cache r''] by simp
next
  show "\<not> allows_cross_origin (send_json l data)" by (rule send_json_no_cors)
  show "\<not> allows_cross_origin (send_error l code)" by (rule send_error_no_cors)
qed

theorem cors_only_on_served_files_witness:
  "allows_cross_origin (projr (fst (do_GET example_lib world_ok (Some 7) ''/hls/stream.m3u8'')))
   \<and> \<not> allows_cross_origin (projr (fst (do_GET example_lib world_ok (Some 7) ''/project'')))"
proof -
  have op: "open_result world_ok ''/tmp/projector-stream/stream.m3u8'' = Inr ''#EXTM3U''"
    by (simp add: world_ok_def)
  have ev: "snd (do_GET example_lib world_ok (Some 7) ''/hls/stream.m3u8'') =
      [OpenFile ''/tmp/projector-stream/stream.m3u8'']"
    by (simp add: example_manifest serve_file_effects)
  have inr: "fst (do_GET example_lib world_ok (Some 7) ''/hls/stream.m3u8'') =
      Inr (projr (fst (do_GET example_lib world_ok (Some 7) ''/hls/stream.m3u8'')))"
    by (simp add: example_manifest serve_file_def op)
  have served: "allows_cross_origin
      (projr (fst (do_GET example_lib world_ok (Some 7) ''/hls/stream.m3u8'')))"
    using cors_only_on_served_files [of example_lib world_ok "Some 7" "''/hls/stream.m3u8''"
        "projr (fst (do_GET example_lib world_ok (Some 7) ''/hls/stream.m3u8''))"]
      inr ev op by blast
  have page: "do_GET example_lib world_ok (Some 7) ''/project'' =
      (Inr (send_error example_lib 404), [OpenFile ''/srv/projector/control.html''])"
    by (simp add: do_GET_def serve_file_def path_join_def example_lib_def world_ok_def)
  have "\<not> allows_cross_origin (projr (fst (do_GET example_lib world_ok (Some 7) ''/project'')))"
    using cors_only_on_served_files [of example_lib world_ok "Some 7" "''/project''"
        "send_error example_lib 404"] page
    by (simp add: world_ok_def)
  with served show ?thesis ..
qed

text \<open>
  Claim C6 as stated says that every response carries the header. The reply to
  GET /api/status is a response, and it does not.
\<close>

theorem cors_on_every_response_counterexample:
  "\<not> isl (fst (do_GET example_lib world_ok None ''/api/status''))
   \<and> \<not> allows_cross_origin (projr (fst (do_GET example_lib world_ok None ''/api/status'')))"
  by (simp add: do_GET_def startswith_def Let_def send_json_no_cors)

subsection \<open>Missing files and other failures of open\<close>

text \<open>
  Claim C10, as amended. \<open>serve_file\<close> answers 404 exactly when \<open>open\<close> raises
  \<open>FileNotFoundError\<close>; any other exception of \<open>open\<close> leaves \<open>serve_file\<close> as it is,
  with no response. The path \<open>/hls/\<close> has the empty file name, which passes the
  traversal filter, and resolves to \<open>/tmp/projector-stream/\<close>, the segment directory.
  While that directory exists, opening it raises \<open>IsADirectoryError\<close> and the request
  ends with that exception and not with a 404; while it does not exist, opening it
  raises \<open>FileNotFoundError\<close> and the request is answered 404.
\<close>

theorem serve_file_not_found_only:
  "((\<exists>r. fst (serve_file l w filepath content_type cache) = Inr r \<and> status r = 404)
      \<longleftrightarrow> open_result w filepath = Inl FileNotFoundError)
   \<and> (open_result w filepath = Inl e \<and> e \<noteq> FileNotFoundError \<longrightarrow>
        serve_file l w filepath content_type cache = (Inl e, [OpenFile filepath]))
   \<and> do_GET l w h ''/hls/'' =
        serve_file l w ''/tmp/projector-stream/'' ''application/octet-stream'' False
   \<and> (open_result w ''/tmp/projector-stream/'' = Inl IsADirectoryError \<longrightarrow>
        do_GET l w h ''/hls/'' = (Inl IsADirectoryError, [OpenFile ''/tmp/projector-stream/'']))
   \<and> (open_result w ''/tmp/projector-stream/'' = Inl FileNotFoundError \<longrightarrow>
        (\<exists>r. do_GET l w h ''/hls/'' = (Inr r, [OpenFile ''/tmp/projector-stream/''])
           \<and> status r = 404))"
proof -
  have a: "(\<exists>r. fst (serve_file l w filepath content_type cache) = Inr r \<and> status r = 404)
      \<longleftrightarrow> open_result w filepath = Inl FileNotFoundError"
    by (auto simp: serve_file_def send_error_def split: sum.splits)
  have b: "serve_file l w filepath content_type cache = (Inl e, [OpenFile filepath])"
    if "open_result w filepath = Inl e \<and> e \<noteq> FileNotFoundError"
    using that by (simp add: serve_file_def)
  have c: "do_GET l w h ''/hls/'' =
        serve_file l w ''/tmp/projector-stream/'' ''application/octet-stream'' False"
    by (simp add: do_GET_def startswith_def Let_def path_join_def HLS_DIR_def splitext_def
        rfind_def mime_type_def MIME_TYPES_def)
  have d: "do_GET l w h ''/hls/'' = (Inl IsADirectoryError, [OpenFile ''/tmp/projector-stream/''])"
    if "open_result w ''/tmp/projector-stream/'' = Inl IsADirectoryError"
    using that c by (simp add: serve_file_def)
  have e: "\<exists>r. do_GET l w h ''/hls/'' = (Inr r, [OpenFile ''/tmp/projector-stream/''])
           \<and> status r = 404"
    if "open_result w ''/tmp/projector-stream/'' = Inl FileNotFoundError"
    using that c by (simp add: serve_file_def send_error_def)
  from a b c d e show ?thesis by blast
qed

theorem serve_file_not_found_only_witness:
  "do_GET example_lib world_ok None ''/hls/'' =
     (Inl IsADirectoryError, [OpenFile ''/tmp/projector-stream/''])
   \<and> (\<exists>r. fst (serve_file example_lib world_ok ''/tmp/projector-stream/seg000.ts''
               ''video/mp2t'' True) = Inr r \<and> status r = 404)
   \<and> serve_file example_lib world_ok ''/tmp/projector-stream/'' ''application/octet-stream'' False =
       (Inl IsADirectoryError, [OpenFile ''/tmp/projector-stream/''])
   \<and> (\<exists>r. do_GET example_lib world_fresh None ''/hls/'' =
             (Inr r, [OpenFile ''/tmp/projector-stream/'']) \<and> status r = 404)"
proof -
  have dir: "open_result world_ok ''/tmp/projector-stream/'' = Inl IsADirectoryError"
    by (simp add: world_ok_def)
  have seg: "open_result world_ok ''/tmp/projector-stream/seg000.ts'' = Inl FileNotFoundError"
    by (simp add: world_ok_def)
  have fresh: "open_result world_fresh ''/tmp/projector-stream/'' = Inl FileNotFoundError"
    by (simp add: world_fresh_def world_ok_def)
  have other: "IsADirectoryError \<noteq> FileNotFoundError"
    by simp
  from serve_file_not_found_only [of example_lib world_ok "''/tmp/projector-stream/seg000.ts''"
      "''video/mp2t''" True IsADirectoryError None] seg
  have a: "\<exists>r. fst (serve_file example_lib world_ok ''/tmp/projector-stream/seg000.ts''
               ''video/mp2t'' True) = Inr r \<and> status r = 404"
    by blast
  from serve_file_not_found_only [of example_lib world_ok "''/tmp/projector-stream/''"
      "''application/octet-stream''" False IsADirectoryError None] dir other
  have b: "do_GET example_lib world_ok None ''/hls/'' =
      (Inl IsADirectoryError, [OpenFile ''/tmp/projector-stream/''])"
    and c: "serve_file example_lib world_ok ''/tmp/projector-stream/''
      ''application/octet-stream'' False =
      (Inl IsADirectoryError, [OpenFile ''/tmp/projector-stream/''])"
    by blast+
  from serve_file_not_found_only [of example_lib world_fresh "''/tmp/projector-stream/''"
      "''application/octet-stream''" False IsADirectoryError None] fresh
  have d: "\<exists>r. do_GET example_lib world_fresh None ''/hls/'' =
             (Inr r, [OpenFile ''/tmp/projector-stream/'']) \<and> status r = 404"
    by blast
  from a b c d show ?thesis by blast
qed

text \<open>
  Claim C10 as stated says that the open failure of \<open>/hls/\<close> is not mapped to 404.
  Before the first start the segment directory does not exist: opening
  \<open>/tmp/projector-stream/\<close> raises \<open>FileNotFoundError\<close>, and GET /hls/ is answered with
  status 404.
\<close>

theorem hls_root_not_found_counterexample:
  "fst (do_GET example_lib world_fresh None ''/hls/'') = Inr (send_error example_lib 404)
   \<and> status (projr (fst (do_GET example_lib world_fresh None ''/hls/''))) = 404
   \<and> snd (do_GET example_lib world_fresh None ''/hls/'') = [OpenFile ''/tmp/projector-stream/'']"
  by (simp add: do_GET_def startswith_def Let_def path_join_def HLS_DIR_def splitext_def
      rfind_def mime_type_def MIME_TYPES_def serve_file_def send_error_def
      world_fresh_def world_ok_def)

subsection \<open>A body that is JSON but not an object\<close>

text \<open>
  Claim C4 says that no malformed request makes the server raise an unhandled fault.
  A POST /api/start whose body is the two bytes \<open>[]\<close> parses as a list;
  \<open>data.get("id", "3")\<close> then raises \<open>AttributeError\<close>, which \<open>do_POST\<close> does not catch:
  no response is produced and \<open>start_stream\<close> is not called.
\<close>

theorem post_start_array_body_unhandled:
  "do_POST example_lib world_ok None (start_request ''[]'') = (Inl AttributeError, None, [])"
  by (simp add: do_POST_def request_data_def read_content_len_def parse_body_def rfile_read_def
      get_id_def example_lib_def start_request_def)

end
